theory Spec2Isabelle
  imports Main
begin

section \<open>Python values and exceptions\<close>

text \<open>
  The adapter of \<^verbatim>\<open>apscheduler/adapters.py\<close> passes its arguments and results through
  without looking at them, so domain values (schedules, jobs, identifiers, tokens, events)
  are Python values of one universal type. Callables are included, because
  \<^verbatim>\<open>subscribe\<close> builds one: \<^verbatim>\<open>partial(self._portal.call, callback)\<close>.
\<close>

datatype pyval =
    PNone
  | PBool bool
  | PInt int
  | PStr string
  | PList "pyval list"
  | PFun nat
  | PPortalCall nat
  | PPartial pyval "pyval list"

text \<open>
  \<open>PFun n\<close> is a user callable, known by its identity \<open>n\<close>; \<open>PPortalCall p\<close> is the
  bound method \<^verbatim>\<open>call\<close> of the portal at address \<open>p\<close>; \<open>PPartial f bound\<close> is
  \<^verbatim>\<open>functools.partial(f, *bound)\<close>.

  \<open>truthy\<close> is Python's truth value testing, which \<^verbatim>\<open>if not ...\<close> applies to what
  \<^verbatim>\<open>cm.__exit__\<close> returned.
\<close>

fun truthy :: "pyval \<Rightarrow> bool" where
  "truthy PNone = False"
| "truthy (PBool b) = b"
| "truthy (PInt i) = (i \<noteq> 0)"
| "truthy (PStr s) = (s \<noteq> [])"
| "truthy (PList xs) = (xs \<noteq> [])"
| "truthy (PFun n) = True"
| "truthy (PPortalCall p) = True"
| "truthy (PPartial f bound) = True"

text \<open>An exception: its class, its arguments and its traceback.\<close>

datatype exc = Exc (exc_class: string) (exc_args: pyval) (exc_traceback: "string list")

text \<open>
  The triple \<^verbatim>\<open>(exc_type, exc_val, exc_tb)\<close> that \<^verbatim>\<open>__exit__\<close> and
  \<^verbatim>\<open>__aexit__\<close> receive. \<open>no_exc_info\<close> is \<^verbatim>\<open>(None, None, None)\<close>;
  \<open>sys_exc_info e\<close> is what \<^verbatim>\<open>sys.exc_info()\<close> returns while \<open>e\<close> is being handled.
\<close>

type_synonym exc_info = "string option \<times> exc option \<times> string list option"

definition no_exc_info :: exc_info where
  "no_exc_info = (None, None, None)"

definition sys_exc_info :: "exc \<Rightarrow> exc_info" where
  "sys_exc_info e = (Some (exc_class e), Some e, Some (exc_traceback e))"

definition AttributeError :: "string \<Rightarrow> exc" where
  "AttributeError name = Exc ''AttributeError'' (PStr name) []"

definition TypeError :: "string \<Rightarrow> exc" where
  "TypeError msg = Exc ''TypeError'' (PStr msg) []"

definition RuntimeError :: "string \<Rightarrow> exc" where
  "RuntimeError msg = Exc ''RuntimeError'' (PStr msg) []"

section \<open>The collaborators of the adapter\<close>

text \<open>
  Every call that leaves the adapter is recorded, in order, with the thread it ran on.
  \<open>LoopThread\<close> is the thread of the event loop, \<open>WorkerThread\<close> a thread of the pool
  that \<^verbatim>\<open>to_thread.run_sync\<close> uses.
\<close>

datatype thread = LoopThread | WorkerThread

datatype call =
    BlockingPortal_init nat
  | Portal_aenter nat
  | Portal_aexit nat exc_info
  | Portal_call nat pyval "pyval list"
  | Orig_enter
  | Orig_exit exc_info
  | Get_schedules pyval
  | Add_schedule pyval pyval
  | Remove_schedules pyval
  | Acquire_schedules pyval pyval
  | Cm_enter
  | Cm_exit exc_info
  | Add_job pyval
  | Get_jobs pyval
  | Acquire_jobs pyval pyval
  | Release_job pyval pyval pyval
  | Get_job_result pyval
  | Subscribe pyval pyval
  | Unsubscribe pyval
  | Call_fun nat "pyval list"

text \<open>
  The blocking side works on a state \<open>'c\<close> of its own. One of its operations takes the
  state and returns either the exception it raised or its result, and the new state.

  \<open>ctxmgr\<close> is the context manager that \<^verbatim>\<open>DataStore.acquire_schedules\<close> returns;
  \<open>datastore\<close> is the interface \<^verbatim>\<open>DataStore\<close> (declared in \<^verbatim>\<open>apscheduler/abc.py\<close>)
  as the adapter uses it. Every operation returns a Python value: the annotation
  \<^verbatim>\<open>-> None\<close> of an operation is not enforced, so such an operation may return any object.
\<close>

record 'c ctxmgr =
  cm_enter :: "'c \<Rightarrow> (exc + pyval) \<times> 'c"
  cm_exit :: "exc_info \<Rightarrow> 'c \<Rightarrow> (exc + pyval) \<times> 'c"

record 'c datastore =
  ds_enter :: "'c \<Rightarrow> (exc + pyval) \<times> 'c"
  ds_exit :: "exc_info \<Rightarrow> 'c \<Rightarrow> (exc + pyval) \<times> 'c"
  ds_get_schedules :: "pyval \<Rightarrow> 'c \<Rightarrow> (exc + pyval) \<times> 'c"
  ds_add_schedule :: "pyval \<Rightarrow> pyval \<Rightarrow> 'c \<Rightarrow> (exc + pyval) \<times> 'c"
  ds_remove_schedules :: "pyval \<Rightarrow> 'c \<Rightarrow> (exc + pyval) \<times> 'c"
  ds_acquire_schedules :: "pyval \<Rightarrow> pyval \<Rightarrow> 'c \<Rightarrow> (exc + 'c ctxmgr) \<times> 'c"
  ds_add_job :: "pyval \<Rightarrow> 'c \<Rightarrow> (exc + pyval) \<times> 'c"
  ds_get_jobs :: "pyval \<Rightarrow> 'c \<Rightarrow> (exc + pyval) \<times> 'c"
  ds_acquire_jobs :: "pyval \<Rightarrow> pyval \<Rightarrow> 'c \<Rightarrow> (exc + pyval) \<times> 'c"
  ds_release_job :: "pyval \<Rightarrow> pyval \<Rightarrow> pyval \<Rightarrow> 'c \<Rightarrow> (exc + pyval) \<times> 'c"
  ds_get_job_result :: "pyval \<Rightarrow> 'c \<Rightarrow> (exc + pyval) \<times> 'c"
  ds_subscribe :: "pyval \<Rightarrow> pyval \<Rightarrow> 'c \<Rightarrow> (exc + pyval) \<times> 'c"
  ds_unsubscribe :: "pyval \<Rightarrow> 'c \<Rightarrow> (exc + pyval) \<times> 'c"

text \<open>
  What \<^verbatim>\<open>anyio\<close> decides when a \<^verbatim>\<open>BlockingPortal\<close> is started and stopped: both
  may raise. They are parameters of the model.
\<close>

record 'c anyio =
  bp_aenter :: "nat \<Rightarrow> 'c \<Rightarrow> (exc + unit) \<times> 'c"
  bp_aexit :: "nat \<Rightarrow> exc_info \<Rightarrow> 'c \<Rightarrow> (exc + pyval) \<times> 'c"

section \<open>The adapter object and the state of the program\<close>

text \<open>
  The dataclass \<^verbatim>\<open>AsyncDataStoreAdapter\<close>: \<^verbatim>\<open>original\<close> is given to the constructor;
  \<^verbatim>\<open>_portal\<close> is \<^verbatim>\<open>field(init=False)\<close> with no default, so the attribute does not
  exist (\<open>None\<close> here) until \<^verbatim>\<open>__aenter__\<close> assigns it. A portal is kept by its
  address in \<open>portals\<close>, the store of the \<^verbatim>\<open>BlockingPortal\<close> objects created so far.
\<close>

datatype portal_state = Created | Running | Stopped

record 'c adapter =
  original :: "'c datastore"
  portal :: "nat option"

record 'c world =
  this :: "'c adapter"
  ext :: 'c
  cur_thread :: thread
  portals :: "portal_state list"
  trace :: "(thread \<times> call) list"

type_synonym ('c, 'a) io = "'c world \<Rightarrow> (exc + 'a) \<times> 'c world"

definition return_io :: "'a \<Rightarrow> ('c, 'a) io" where
  "return_io x = (\<lambda>w. (Inr x, w))"

definition raise_io :: "exc \<Rightarrow> ('c, 'a) io" where
  "raise_io e = (\<lambda>w. (Inl e, w))"

text \<open>Sequencing: an exception of the first statement skips the rest.\<close>

definition bind_io :: "('c, 'a) io \<Rightarrow> ('a \<Rightarrow> ('c, 'b) io) \<Rightarrow> ('c, 'b) io" where
  "bind_io m f = (\<lambda>w. case m w of (Inl e, w') \<Rightarrow> (Inl e, w') | (Inr x, w') \<Rightarrow> f x w')"

text \<open>
  \<^verbatim>\<open>try: m  except BaseException: handler  else: orelse\<close>. The handler sees the
  exception; an exception raised by the handler or by the else branch propagates.
\<close>

definition try_except_else ::
  "('c, 'a) io \<Rightarrow> (exc \<Rightarrow> ('c, 'b) io) \<Rightarrow> ('a \<Rightarrow> ('c, 'b) io) \<Rightarrow> ('c, 'b) io" where
  "try_except_else m handler orelse =
     (\<lambda>w. case m w of (Inl e, w') \<Rightarrow> handler e w' | (Inr x, w') \<Rightarrow> orelse x w')"

text \<open>
  A call of an operation of the blocking side: it is recorded with the thread it runs on,
  then it runs on the state of the blocking side.
\<close>

definition invoke :: "call \<Rightarrow> ('c \<Rightarrow> (exc + 'a) \<times> 'c) \<Rightarrow> ('c, 'a) io" where
  "invoke c f =
     (\<lambda>w. case f (ext w) of
            (r, s) \<Rightarrow> (r, w\<lparr>ext := s, trace := trace w @ [(cur_thread w, c)]\<rparr>))"

text \<open>
  Modelled from the spec: \<^verbatim>\<open>anyio.to_thread.run_sync\<close>, the WorkerOffloader of section
  4.1. The function runs on a worker thread while the caller is suspended; its result is
  returned and its exception re-raised as they are.
\<close>

definition run_sync :: "('c, 'a) io \<Rightarrow> ('c, 'a) io" where
  "run_sync m =
     (\<lambda>w. case m (w\<lparr>cur_thread := WorkerThread\<rparr>) of
            (r, w') \<Rightarrow> (r, w'\<lparr>cur_thread := cur_thread w\<rparr>))"

text \<open>Reading \<^verbatim>\<open>self.original\<close> and \<^verbatim>\<open>self._portal\<close>, assigning \<^verbatim>\<open>self._portal\<close>.\<close>

definition self_original :: "('c, 'c datastore) io" where
  "self_original = (\<lambda>w. (Inr (original (this w)), w))"

definition self_portal :: "('c, nat) io" where
  "self_portal =
     (\<lambda>w. case portal (this w) of
            None \<Rightarrow> (Inl (AttributeError ''_portal''), w)
          | Some p \<Rightarrow> (Inr p, w))"

definition set_self_portal :: "nat \<Rightarrow> ('c, unit) io" where
  "set_self_portal p = (\<lambda>w. (Inr (), w\<lparr>this := (this w)\<lparr>portal := Some p\<rparr>\<rparr>))"

section \<open>The plain operations\<close>

text \<open>
  Four methods return what the awaited call returns. The other four (\<^verbatim>\<open>add_schedule\<close>,
  \<^verbatim>\<open>remove_schedules\<close>, \<^verbatim>\<open>add_job\<close>, \<^verbatim>\<open>release_job\<close>) have no \<^verbatim>\<open>return\<close>
  statement: the awaited value is dropped and the method returns \<^verbatim>\<open>None\<close>.
\<close>

definition get_schedules :: "pyval \<Rightarrow> ('c, pyval) io" where
  "get_schedules ids =
     bind_io self_original (\<lambda>orig.
       run_sync (invoke (Get_schedules ids) (ds_get_schedules orig ids)))"

definition add_schedule :: "pyval \<Rightarrow> pyval \<Rightarrow> ('c, pyval) io" where
  "add_schedule schedule conflict_policy =
     bind_io self_original (\<lambda>orig.
     bind_io (run_sync (invoke (Add_schedule schedule conflict_policy)
                          (ds_add_schedule orig schedule conflict_policy))) (\<lambda>_.
       return_io PNone))"

definition remove_schedules :: "pyval \<Rightarrow> ('c, pyval) io" where
  "remove_schedules ids =
     bind_io self_original (\<lambda>orig.
     bind_io (run_sync (invoke (Remove_schedules ids) (ds_remove_schedules orig ids))) (\<lambda>_.
       return_io PNone))"

definition add_job :: "pyval \<Rightarrow> ('c, pyval) io" where
  "add_job job =
     bind_io self_original (\<lambda>orig.
     bind_io (run_sync (invoke (Add_job job) (ds_add_job orig job))) (\<lambda>_.
       return_io PNone))"

definition get_jobs :: "pyval \<Rightarrow> ('c, pyval) io" where
  "get_jobs ids =
     bind_io self_original (\<lambda>orig.
       run_sync (invoke (Get_jobs ids) (ds_get_jobs orig ids)))"

definition acquire_jobs :: "pyval \<Rightarrow> pyval \<Rightarrow> ('c, pyval) io" where
  "acquire_jobs worker_id limit =
     bind_io self_original (\<lambda>orig.
       run_sync (invoke (Acquire_jobs worker_id limit) (ds_acquire_jobs orig worker_id limit)))"

definition release_job :: "pyval \<Rightarrow> pyval \<Rightarrow> pyval \<Rightarrow> ('c, pyval) io" where
  "release_job worker_id job_id result =
     bind_io self_original (\<lambda>orig.
     bind_io (run_sync (invoke (Release_job worker_id job_id result)
                          (ds_release_job orig worker_id job_id result))) (\<lambda>_.
       return_io PNone))"

definition get_job_result :: "pyval \<Rightarrow> ('c, pyval) io" where
  "get_job_result job_id =
     bind_io self_original (\<lambda>orig.
       run_sync (invoke (Get_job_result job_id) (ds_get_job_result orig job_id)))"

section \<open>The portal\<close>

text \<open>
  Modelled from the spec: \<^verbatim>\<open>anyio.from_thread.BlockingPortal\<close>, the CallbackPortal of
  section 4.2. Opening and closing bracket the portal's validity: a new portal is
  \<open>Created\<close>, it is \<open>Running\<close> once \<^verbatim>\<open>__aenter__\<close> has returned, and \<open>Stopped\<close> as soon
  as \<^verbatim>\<open>__aexit__\<close> is called. \<^verbatim>\<open>call\<close> runs the function on the loop thread while
  the calling thread waits, hands its result or its exception back, and fails on a portal
  that is not running.
\<close>

definition BlockingPortal :: "('c, nat) io" where
  "BlockingPortal =
     (\<lambda>w. (Inr (length (portals w)),
           w\<lparr>portals := portals w @ [Created],
             trace := trace w @ [(cur_thread w, BlockingPortal_init (length (portals w)))]\<rparr>))"

definition portal_aenter :: "'c anyio \<Rightarrow> nat \<Rightarrow> ('c, unit) io" where
  "portal_aenter lib p =
     bind_io (invoke (Portal_aenter p) (bp_aenter lib p)) (\<lambda>_.
       (\<lambda>w. (Inr (), w\<lparr>portals := (portals w)[p := Running]\<rparr>)))"

definition portal_aexit :: "'c anyio \<Rightarrow> nat \<Rightarrow> exc_info \<Rightarrow> ('c, pyval) io" where
  "portal_aexit lib p info =
     (\<lambda>w. invoke (Portal_aexit p info) (bp_aexit lib p info)
            (w\<lparr>portals := (portals w)[p := Stopped]\<rparr>))"

definition portal_call :: "nat \<Rightarrow> pyval \<Rightarrow> pyval list \<Rightarrow> ('c, 'a) io \<Rightarrow> ('c, 'a) io" where
  "portal_call p f args run_f =
     (\<lambda>w. if p < length (portals w) \<and> portals w ! p = Running
          then (case run_f (w\<lparr>cur_thread := LoopThread,
                              trace := trace w @ [(cur_thread w, Portal_call p f args)]\<rparr>) of
                  (r, w') \<Rightarrow> (r, w'\<lparr>cur_thread := cur_thread w\<rparr>))
          else (Inl (RuntimeError ''This portal is not running''),
                w\<lparr>trace := trace w @ [(cur_thread w, Portal_call p f args)]\<rparr>))"

text \<open>
  Calling a Python value. \<open>u\<close> is the behaviour of the user callables: \<open>u n args\<close> is what
  the callable \<open>n\<close> does on the arguments \<open>args\<close>. A \<^verbatim>\<open>partial\<close> object calls its
  function with the bound arguments first; \<^verbatim>\<open>portal.call(f, *args)\<close> runs
  \<^verbatim>\<open>f(*args)\<close> through the portal.
\<close>

function py_call ::
  "(nat \<Rightarrow> pyval list \<Rightarrow> 'c \<Rightarrow> (exc + pyval) \<times> 'c) \<Rightarrow> pyval \<Rightarrow> pyval list \<Rightarrow> ('c, pyval) io" where
  "py_call u (PFun n) args = invoke (Call_fun n args) (u n args)"
| "py_call u (PPartial f bound) args = py_call u f (bound @ args)"
| "py_call u (PPortalCall p) (f # args) = portal_call p f args (py_call u f args)"
| "py_call u (PPortalCall p) [] = raise_io (TypeError ''call() missing argument: func'')"
| "py_call u PNone args = raise_io (TypeError ''object is not callable'')"
| "py_call u (PBool b) args = raise_io (TypeError ''object is not callable'')"
| "py_call u (PInt i) args = raise_io (TypeError ''object is not callable'')"
| "py_call u (PStr s) args = raise_io (TypeError ''object is not callable'')"
| "py_call u (PList xs) args = raise_io (TypeError ''object is not callable'')"
  by pat_completeness auto
termination
  by (relation "measure (\<lambda>(u, f, args). size f + size_list size args)") auto

section \<open>Entering and leaving the adapter\<close>

text \<open>
  \<^verbatim>\<open>__aenter__\<close> and \<^verbatim>\<open>__aexit__\<close> as the class body writes them. The methods return
  \<^verbatim>\<open>self\<close> and \<^verbatim>\<open>None\<close>; the adapter object is \<open>this\<close> of the state, so both return
  \<open>unit\<close> here. The class decorator \<^verbatim>\<open>reentrant\<close> of \<^verbatim>\<open>apscheduler/util.py\<close>, which
  counts nested entries around these two methods, is outside this file; the definitions
  are the method bodies, which run on the first entry and on the last exit.
\<close>

definition aenter :: "'c anyio \<Rightarrow> ('c, unit) io" where
  "aenter lib =
     bind_io BlockingPortal (\<lambda>new_portal.
     bind_io (set_self_portal new_portal) (\<lambda>_.
     bind_io self_portal (\<lambda>p.
     bind_io (portal_aenter lib p) (\<lambda>_.
     bind_io self_original (\<lambda>orig.
     bind_io (run_sync (invoke Orig_enter (ds_enter orig))) (\<lambda>_.
       return_io ()))))))"

definition aexit :: "'c anyio \<Rightarrow> exc_info \<Rightarrow> ('c, unit) io" where
  "aexit lib info =
     bind_io self_original (\<lambda>orig.
     bind_io (run_sync (invoke (Orig_exit info) (ds_exit orig info))) (\<lambda>_.
     bind_io self_portal (\<lambda>p.
     bind_io (portal_aexit lib p info) (\<lambda>_.
       return_io ()))))"

section \<open>The scoped acquisition\<close>

text \<open>
  \<^verbatim>\<open>acquire_schedules\<close> is a generator under \<^verbatim>\<open>@asynccontextmanager\<close>. The argument
  \<open>yield\<close> is the body of the consumer's \<^verbatim>\<open>async with\<close> block: the generator runs up to
  its \<^verbatim>\<open>yield\<close>, the body runs with the yielded value, and the body's exception, if
  any, is raised at the \<^verbatim>\<open>yield\<close>. The bare \<^verbatim>\<open>raise\<close> re-raises the exception being
  handled.
\<close>

definition acquire_schedules ::
  "pyval \<Rightarrow> pyval \<Rightarrow> (pyval \<Rightarrow> ('c, unit) io) \<Rightarrow> ('c, unit) io" where
  "acquire_schedules scheduler_id limit yield =
     bind_io self_original (\<lambda>orig.
     bind_io (invoke (Acquire_schedules scheduler_id limit)
                (ds_acquire_schedules orig scheduler_id limit)) (\<lambda>cm.
     bind_io (run_sync (invoke Cm_enter (cm_enter cm))) (\<lambda>schedules.
       try_except_else (yield schedules)
         (\<lambda>e. bind_io (run_sync (invoke (Cm_exit (sys_exc_info e))
                                   (cm_exit cm (sys_exc_info e)))) (\<lambda>suppress.
                if \<not> truthy suppress then raise_io e else return_io ()))
         (\<lambda>_. bind_io (run_sync (invoke (Cm_exit no_exc_info)
                                   (cm_exit cm no_exc_info))) (\<lambda>_.
                return_io ())))))"

section \<open>Subscriptions\<close>

definition subscribe :: "pyval \<Rightarrow> pyval \<Rightarrow> ('c, pyval) io" where
  "subscribe callback event_types =
     bind_io self_original (\<lambda>orig.
     bind_io self_portal (\<lambda>p.
       invoke (Subscribe (PPartial (PPortalCall p) [callback]) event_types)
         (ds_subscribe orig (PPartial (PPortalCall p) [callback]) event_types)))"

definition unsubscribe :: "pyval \<Rightarrow> ('c, unit) io" where
  "unsubscribe token =
     bind_io self_original (\<lambda>orig.
     bind_io (invoke (Unsubscribe token) (ds_unsubscribe orig token)) (\<lambda>_.
       return_io ()))"

section \<open>Reference behaviour\<close>

text \<open>
  What a plain operation of the component does when it is called directly with the given
  arguments on a worker thread: its result or exception, its effect on the state of the
  blocking side, and one recorded call. The adapter's operations are compared with it.
\<close>

definition offloaded :: "call \<Rightarrow> ('c \<Rightarrow> (exc + 'a) \<times> 'c) \<Rightarrow> ('c, 'a) io" where
  "offloaded c f =
     (\<lambda>w. (fst (f (ext w)),
           w\<lparr>ext := snd (f (ext w)), trace := trace w @ [(WorkerThread, c)]\<rparr>))"

text \<open>The arguments of the \<^verbatim>\<open>cm.__exit__\<close> calls in a stretch of the record, in order.\<close>

fun cm_exit_args :: "(thread \<times> call) list \<Rightarrow> exc_info list" where
  "cm_exit_args [] = []"
| "cm_exit_args ((t, Cm_exit info) # evs) = info # cm_exit_args evs"
| "cm_exit_args (ev # evs) = cm_exit_args evs"

section \<open>Example components\<close>

text \<open>
  A small component over a counter, and variants of it in which one operation raises:
  the concrete inputs at which the theorems below are instantiated.
\<close>

definition boom :: exc where
  "boom = Exc ''ValueError'' (PStr ''boom'') [''body'']"

definition ex_cm :: "pyval \<Rightarrow> nat ctxmgr" where
  "ex_cm suppress =
     \<lparr>cm_enter = (\<lambda>s. (Inr (PList [PStr ''schedule1'']), s + 1)),
      cm_exit = (\<lambda>info s. (Inr suppress, s + 10))\<rparr>"

definition ex_cm_enter_fails :: "nat ctxmgr" where
  "ex_cm_enter_fails =
     \<lparr>cm_enter = (\<lambda>s. (Inl boom, s + 1)),
      cm_exit = (\<lambda>info s. (Inr PNone, s + 10))\<rparr>"

definition ex_store :: "nat datastore" where
  "ex_store =
     \<lparr>ds_enter = (\<lambda>s. (Inr PNone, s + 1)),
      ds_exit = (\<lambda>info s. (Inr PNone, s + 1)),
      ds_get_schedules = (\<lambda>ids s. (Inr (PList []), s)),
      ds_add_schedule = (\<lambda>schedule conflict_policy s. (Inr PNone, s + 1)),
      ds_remove_schedules = (\<lambda>ids s. (Inr PNone, s)),
      ds_acquire_schedules = (\<lambda>scheduler_id limit s. (Inr (ex_cm PNone), s)),
      ds_add_job = (\<lambda>job s. (Inr PNone, s + 1)),
      ds_get_jobs = (\<lambda>ids s. (Inr (PList []), s)),
      ds_acquire_jobs = (\<lambda>worker_id limit s. (Inr (PList []), s)),
      ds_release_job = (\<lambda>worker_id job_id result s. (Inr PNone, s)),
      ds_get_job_result = (\<lambda>job_id s. (Inr PNone, s)),
      ds_subscribe = (\<lambda>callback event_types s. (Inr (PInt 7), s + 1)),
      ds_unsubscribe = (\<lambda>token s. (Inr PNone, s + 1))\<rparr>"

definition ex_store_with_cm :: "nat ctxmgr \<Rightarrow> nat datastore" where
  "ex_store_with_cm cm = ex_store\<lparr>ds_acquire_schedules := (\<lambda>scheduler_id limit s. (Inr cm, s))\<rparr>"

definition ex_store_acquire_fails :: "nat datastore" where
  "ex_store_acquire_fails =
     ex_store\<lparr>ds_acquire_schedules := (\<lambda>scheduler_id limit s. (Inl boom, s))\<rparr>"

definition ex_store_enter_fails :: "nat datastore" where
  "ex_store_enter_fails = ex_store\<lparr>ds_enter := (\<lambda>s. (Inl boom, s + 1))\<rparr>"

definition ex_store_exit_fails :: "nat datastore" where
  "ex_store_exit_fails = ex_store\<lparr>ds_exit := (\<lambda>info s. (Inl boom, s + 1))\<rparr>"

definition ex_store_add_returns_5 :: "nat datastore" where
  "ex_store_add_returns_5 =
     ex_store\<lparr>ds_add_schedule := (\<lambda>schedule conflict_policy s. (Inr (PInt 5), s + 1))\<rparr>"

definition ex_lib :: "nat anyio" where
  "ex_lib =
     \<lparr>bp_aenter = (\<lambda>p s. (Inr (), s)),
      bp_aexit = (\<lambda>p info s. (Inr PNone, s))\<rparr>"

definition ex_lib_aenter_fails :: "nat anyio" where
  "ex_lib_aenter_fails = ex_lib\<lparr>bp_aenter := (\<lambda>p s. (Inl boom, s))\<rparr>"

definition ex_closed :: "nat datastore \<Rightarrow> nat world" where
  "ex_closed ds =
     \<lparr>this = \<lparr>original = ds, portal = None\<rparr>, ext = 0, cur_thread = LoopThread,
      portals = [], trace = []\<rparr>"

definition ex_open :: "nat datastore \<Rightarrow> nat world" where
  "ex_open ds =
     \<lparr>this = \<lparr>original = ds, portal = Some 0\<rparr>, ext = 0, cur_thread = LoopThread,
      portals = [Running], trace = []\<rparr>"

definition ex_body_ok :: "pyval \<Rightarrow> (nat, unit) io" where
  "ex_body_ok schedules = return_io ()"

definition ex_body_raises :: "pyval \<Rightarrow> (nat, unit) io" where
  "ex_body_raises schedules = raise_io boom"

definition ex_user :: "nat \<Rightarrow> pyval list \<Rightarrow> nat \<Rightarrow> (exc + pyval) \<times> nat" where
  "ex_user n args s = (Inr (PList args), s + 100)"

section \<open>Properties\<close>

lemmas io_defs =
  return_io_def raise_io_def bind_io_def try_except_else_def invoke_def run_sync_def
  self_original_def self_portal_def set_self_portal_def

lemmas ex_defs = boom_def ex_cm_def ex_cm_enter_fails_def ex_store_def ex_store_with_cm_def
  ex_store_acquire_fails_def ex_store_enter_fails_def ex_store_exit_fails_def
  ex_store_add_returns_5_def ex_lib_def
  ex_lib_aenter_fails_def ex_closed_def ex_open_def ex_body_ok_def ex_body_raises_def ex_user_def

subsection \<open>What each method does, step by step\<close>

lemma aexit_unfold:
  "portal (this w) = Some p \<Longrightarrow>
   aexit lib info w =
     (case ds_exit (original (this w)) info (ext w) of
        (Inl e, s1) \<Rightarrow>
          (Inl e, w\<lparr>ext := s1, trace := trace w @ [(WorkerThread, Orig_exit info)]\<rparr>)
      | (Inr r, s1) \<Rightarrow>
          (case bp_aexit lib p info s1 of
             (r', s2) \<Rightarrow>
               (map_sum id (\<lambda>_. ()) r',
                w\<lparr>ext := s2, portals := (portals w)[p := Stopped],
                  trace := trace w @ [(WorkerThread, Orig_exit info),
                                      (cur_thread w, Portal_aexit p info)]\<rparr>)))"
  by (simp add: aexit_def portal_aexit_def io_defs split: prod.splits sum.splits)

lemma aenter_unfold:
  "aenter lib w =
     (case bp_aenter lib (length (portals w)) (ext w) of
        (Inl e, s1) \<Rightarrow>
          (Inl e, w\<lparr>this := (this w)\<lparr>portal := Some (length (portals w))\<rparr>, ext := s1,
                    portals := portals w @ [Created],
                    trace := trace w @ [(cur_thread w, BlockingPortal_init (length (portals w))),
                                        (cur_thread w, Portal_aenter (length (portals w)))]\<rparr>)
      | (Inr u, s1) \<Rightarrow>
          (case ds_enter (original (this w)) s1 of
             (r, s2) \<Rightarrow>
               (map_sum id (\<lambda>_. ()) r,
                w\<lparr>this := (this w)\<lparr>portal := Some (length (portals w))\<rparr>, ext := s2,
                  portals := portals w @ [Running],
                  trace := trace w @ [(cur_thread w, BlockingPortal_init (length (portals w))),
                                      (cur_thread w, Portal_aenter (length (portals w))),
                                      (WorkerThread, Orig_enter)]\<rparr>)))"
  by (simp add: aenter_def BlockingPortal_def portal_aenter_def io_defs split: prod.splits sum.splits)

lemma acquire_schedules_unfold:
  "acquire_schedules scheduler_id limit body w =
     (case ds_acquire_schedules (original (this w)) scheduler_id limit (ext w) of
        (Inl e, s1) \<Rightarrow>
          (Inl e, w\<lparr>ext := s1,
                    trace := trace w @ [(cur_thread w, Acquire_schedules scheduler_id limit)]\<rparr>)
      | (Inr cm, s1) \<Rightarrow>
          (case cm_enter cm s1 of
             (Inl e, s2) \<Rightarrow>
               (Inl e, w\<lparr>ext := s2,
                         trace := trace w @ [(cur_thread w, Acquire_schedules scheduler_id limit),
                                             (WorkerThread, Cm_enter)]\<rparr>)
           | (Inr schedules, s2) \<Rightarrow>
               (case body schedules
                       (w\<lparr>ext := s2,
                          trace := trace w @ [(cur_thread w, Acquire_schedules scheduler_id limit),
                                              (WorkerThread, Cm_enter)]\<rparr>) of
                  (Inl e, w3) \<Rightarrow>
                    (case cm_exit cm (sys_exc_info e) (ext w3) of
                       (r, s4) \<Rightarrow>
                         (case r of Inl e' \<Rightarrow> Inl e'
                                  | Inr suppress \<Rightarrow> if truthy suppress then Inr () else Inl e,
                          w3\<lparr>ext := s4,
                             trace := trace w3 @ [(WorkerThread, Cm_exit (sys_exc_info e))]\<rparr>))
                | (Inr x, w3) \<Rightarrow>
                    (case cm_exit cm no_exc_info (ext w3) of
                       (r, s4) \<Rightarrow>
                         (map_sum id (\<lambda>_. ()) r,
                          w3\<lparr>ext := s4,
                             trace := trace w3 @ [(WorkerThread, Cm_exit no_exc_info)]\<rparr>)))))"
  by (simp add: acquire_schedules_def io_defs split: prod.splits sum.splits)

subsection \<open>The plain operations\<close>

text \<open>
  C5, as the code has it. \<^verbatim>\<open>get_schedules\<close>, \<^verbatim>\<open>get_jobs\<close>, \<^verbatim>\<open>acquire_jobs\<close> and
  \<^verbatim>\<open>get_job_result\<close> behave, for all arguments and in every state, as the operation of
  the same name of the blocking component called with the same arguments on a worker
  thread: the same result, the same exception, the same effect on the component, and
  nothing else but the one recorded call. \<^verbatim>\<open>add_schedule\<close>, \<^verbatim>\<open>remove_schedules\<close>,
  \<^verbatim>\<open>add_job\<close> and \<^verbatim>\<open>release_job\<close> pass their arguments on in the same way, have the
  same effect and raise the same exception; when the component's operation returns, they
  return \<^verbatim>\<open>None\<close>, whatever it returned.
\<close>

theorem plain_operations_forwarded:
  "get_schedules ids w = offloaded (Get_schedules ids) (ds_get_schedules (original (this w)) ids) w
   \<and> get_jobs ids w = offloaded (Get_jobs ids) (ds_get_jobs (original (this w)) ids) w
   \<and> acquire_jobs worker_id limit w =
       offloaded (Acquire_jobs worker_id limit)
         (ds_acquire_jobs (original (this w)) worker_id limit) w
   \<and> get_job_result job_id w =
       offloaded (Get_job_result job_id) (ds_get_job_result (original (this w)) job_id) w
   \<and> add_schedule schedule conflict_policy w =
       (case offloaded (Add_schedule schedule conflict_policy)
               (ds_add_schedule (original (this w)) schedule conflict_policy) w of
          (Inl e, w') \<Rightarrow> (Inl e, w')
        | (Inr v, w') \<Rightarrow> (Inr PNone, w'))
   \<and> remove_schedules ids w =
       (case offloaded (Remove_schedules ids) (ds_remove_schedules (original (this w)) ids) w of
          (Inl e, w') \<Rightarrow> (Inl e, w')
        | (Inr v, w') \<Rightarrow> (Inr PNone, w'))
   \<and> add_job job w =
       (case offloaded (Add_job job) (ds_add_job (original (this w)) job) w of
          (Inl e, w') \<Rightarrow> (Inl e, w')
        | (Inr v, w') \<Rightarrow> (Inr PNone, w'))
   \<and> release_job worker_id job_id result w =
       (case offloaded (Release_job worker_id job_id result)
               (ds_release_job (original (this w)) worker_id job_id result) w of
          (Inl e, w') \<Rightarrow> (Inl e, w')
        | (Inr v, w') \<Rightarrow> (Inr PNone, w'))"
  by (simp add: get_schedules_def add_schedule_def remove_schedules_def add_job_def
      get_jobs_def acquire_jobs_def release_job_def get_job_result_def offloaded_def io_defs
      split: prod.splits sum.splits)

text \<open>
  C5, as the claim states it, fails. The component's \<^verbatim>\<open>add_schedule\<close> returns \<open>5\<close>; the
  adapter's \<^verbatim>\<open>add_schedule\<close>, called with the same arguments, returns \<^verbatim>\<open>None\<close>.
\<close>

theorem add_schedule_return_value_counterexample:
  "fst (ds_add_schedule ex_store_add_returns_5 (PStr ''schedule1'') (PStr ''replace'') 0) =
     Inr (PInt 5)
   \<and> fst (add_schedule (PStr ''schedule1'') (PStr ''replace'') (ex_open ex_store_add_returns_5)) =
       Inr PNone
   \<and> add_schedule (PStr ''schedule1'') (PStr ''replace'') (ex_open ex_store_add_returns_5) \<noteq>
       offloaded (Add_schedule (PStr ''schedule1'') (PStr ''replace''))
         (ds_add_schedule ex_store_add_returns_5 (PStr ''schedule1'') (PStr ''replace''))
         (ex_open ex_store_add_returns_5)"
  by (simp add: add_schedule_def offloaded_def io_defs ex_defs)

subsection \<open>Leaving the adapter\<close>

text \<open>
  C1, as the code has it. \<^verbatim>\<open>__aexit__\<close> offloads \<^verbatim>\<open>original.__exit__\<close> first. When that
  call returns, whatever it returns, the portal's \<^verbatim>\<open>__aexit__\<close> runs next, on the calling
  thread and with the same error context, and the portal is stopped. When
  \<^verbatim>\<open>original.__exit__\<close> raises, its exception propagates at once and the portal's
  \<^verbatim>\<open>__aexit__\<close> is not called: the two calls are plain statements in sequence, with no
  \<^verbatim>\<open>try\<close>/\<^verbatim>\<open>finally\<close> around the first.
\<close>

theorem aexit_closes_portal_after_exit_returns:
  assumes "portal (this w) = Some p"
  shows "(ds_exit (original (this w)) info (ext w) = (Inr r, s1) \<longrightarrow>
            trace (snd (aexit lib info w)) =
              trace w @ [(WorkerThread, Orig_exit info), (cur_thread w, Portal_aexit p info)]
            \<and> portals (snd (aexit lib info w)) = (portals w)[p := Stopped]
            \<and> ext (snd (aexit lib info w)) = snd (bp_aexit lib p info s1)
            \<and> fst (aexit lib info w) = map_sum id (\<lambda>_. ()) (fst (bp_aexit lib p info s1)))
       \<and> (ds_exit (original (this w)) info (ext w) = (Inl e, s1) \<longrightarrow>
            aexit lib info w =
              (Inl e, w\<lparr>ext := s1, trace := trace w @ [(WorkerThread, Orig_exit info)]\<rparr>))"
  using assms by (simp add: aexit_unfold split: prod.splits)

text \<open>
  The theorem at a component whose \<^verbatim>\<open>__exit__\<close> returns and at one whose \<^verbatim>\<open>__exit__\<close>
  raises.
\<close>

theorem aexit_closes_portal_after_exit_returns_witness:
  "trace (snd (aexit ex_lib no_exc_info (ex_open ex_store))) =
     [(WorkerThread, Orig_exit no_exc_info), (LoopThread, Portal_aexit 0 no_exc_info)]
   \<and> portals (snd (aexit ex_lib no_exc_info (ex_open ex_store))) = [Stopped]
   \<and> fst (aexit ex_lib no_exc_info (ex_open ex_store)) = Inr ()
   \<and> fst (aexit ex_lib no_exc_info (ex_open ex_store_exit_fails)) = Inl boom"
proof -
  have p1: "portal (this (ex_open ex_store)) = Some 0"
    by (simp add: ex_open_def)
  have p2: "portal (this (ex_open ex_store_exit_fails)) = Some 0"
    by (simp add: ex_open_def)
  from aexit_closes_portal_after_exit_returns
         [OF p1, where lib = ex_lib and info = no_exc_info and r = PNone and ?s1.0 = 1
            and e = boom]
       aexit_closes_portal_after_exit_returns
         [OF p2, where lib = ex_lib and info = no_exc_info and r = PNone and ?s1.0 = 1
            and e = boom]
  show ?thesis by (simp add: ex_defs)
qed

text \<open>
  C1, as the claim states it, fails. The adapter is open, its portal is running, and
  \<^verbatim>\<open>original.__exit__\<close> raises \<open>boom\<close>: \<^verbatim>\<open>__aexit__\<close> raises \<open>boom\<close>, the only recorded
  call is the offloaded \<^verbatim>\<open>original.__exit__\<close>, and the portal is still running.
\<close>

theorem aexit_portal_close_counterexample:
  "aexit ex_lib no_exc_info (ex_open ex_store_exit_fails) =
     (Inl boom,
      (ex_open ex_store_exit_fails)\<lparr>ext := 1, trace := [(WorkerThread, Orig_exit no_exc_info)]\<rparr>)
   \<and> portals (snd (aexit ex_lib no_exc_info (ex_open ex_store_exit_fails))) = [Running]
   \<and> trace (snd (aexit ex_lib no_exc_info (ex_open ex_store_exit_fails))) =
       [(WorkerThread, Orig_exit no_exc_info)]"
  by (simp add: aexit_def portal_aexit_def io_defs ex_defs)

subsection \<open>Entering the adapter\<close>

text \<open>
  C6. \<^verbatim>\<open>__aenter__\<close> creates the portal and opens it first, and only then offloads
  \<^verbatim>\<open>original.__enter__\<close>. When opening the portal raises, \<^verbatim>\<open>__aenter__\<close> raises that
  exception and \<^verbatim>\<open>original.__enter__\<close> is never called. When the portal opens and
  \<^verbatim>\<open>original.__enter__\<close> raises, \<^verbatim>\<open>__aenter__\<close> raises that exception. Only when both
  steps return does \<^verbatim>\<open>__aenter__\<close> return, and the recorded calls are in the order
  portal first, \<^verbatim>\<open>original.__enter__\<close> on a worker thread second.
\<close>

theorem aenter_order:
  "(bp_aenter lib (length (portals w)) (ext w) = (Inl e, s1) \<longrightarrow>
      aenter lib w =
        (Inl e, w\<lparr>this := (this w)\<lparr>portal := Some (length (portals w))\<rparr>, ext := s1,
                  portals := portals w @ [Created],
                  trace := trace w @ [(cur_thread w, BlockingPortal_init (length (portals w))),
                                      (cur_thread w, Portal_aenter (length (portals w)))]\<rparr>))
   \<and> (bp_aenter lib (length (portals w)) (ext w) = (Inr (), s1)
        \<and> ds_enter (original (this w)) s1 = (Inl e, s2) \<longrightarrow>
        fst (aenter lib w) = Inl e
        \<and> trace (snd (aenter lib w)) =
            trace w @ [(cur_thread w, BlockingPortal_init (length (portals w))),
                       (cur_thread w, Portal_aenter (length (portals w))),
                       (WorkerThread, Orig_enter)])
   \<and> (bp_aenter lib (length (portals w)) (ext w) = (Inr (), s1)
        \<and> ds_enter (original (this w)) s1 = (Inr r, s2) \<longrightarrow>
        fst (aenter lib w) = Inr ()
        \<and> ext (snd (aenter lib w)) = s2
        \<and> trace (snd (aenter lib w)) =
            trace w @ [(cur_thread w, BlockingPortal_init (length (portals w))),
                       (cur_thread w, Portal_aenter (length (portals w))),
                       (WorkerThread, Orig_enter)])"
  by (simp add: aenter_unfold)

text \<open>
  The theorem at a portal that fails to open, at a component whose \<^verbatim>\<open>__enter__\<close> raises,
  and at a component and a portal that both start.
\<close>

theorem aenter_order_witness:
  "aenter ex_lib_aenter_fails (ex_closed ex_store) =
     (Inl boom,
      (ex_closed ex_store)\<lparr>this := \<lparr>original = ex_store, portal = Some 0\<rparr>,
         portals := [Created],
         trace := [(LoopThread, BlockingPortal_init 0), (LoopThread, Portal_aenter 0)]\<rparr>)
   \<and> fst (aenter ex_lib (ex_closed ex_store_enter_fails)) = Inl boom
   \<and> trace (snd (aenter ex_lib (ex_closed ex_store_enter_fails))) =
       [(LoopThread, BlockingPortal_init 0), (LoopThread, Portal_aenter 0),
        (WorkerThread, Orig_enter)]
   \<and> fst (aenter ex_lib (ex_closed ex_store)) = Inr ()
   \<and> trace (snd (aenter ex_lib (ex_closed ex_store))) =
       [(LoopThread, BlockingPortal_init 0), (LoopThread, Portal_aenter 0),
        (WorkerThread, Orig_enter)]"
  using
    aenter_order [where lib = ex_lib_aenter_fails and w = "ex_closed ex_store" and e = boom
      and ?s1.0 = 0 and ?s2.0 = 1 and r = PNone]
    aenter_order [where lib = ex_lib and w = "ex_closed ex_store_enter_fails" and e = boom
      and ?s1.0 = 0 and ?s2.0 = 1 and r = PNone]
    aenter_order [where lib = ex_lib and w = "ex_closed ex_store" and e = boom
      and ?s1.0 = 0 and ?s2.0 = 1 and r = PNone]
  by (simp add: ex_defs)

text \<open>
  C10. When the portal has been opened and the offloaded \<^verbatim>\<open>original.__enter__\<close> then
  raises, \<^verbatim>\<open>__aenter__\<close> raises that exception and does nothing more: the new portal is
  the adapter's \<^verbatim>\<open>_portal\<close>, it is running, and no call after \<^verbatim>\<open>original.__enter__\<close>
  is recorded, so the portal's \<^verbatim>\<open>__aexit__\<close> has not been called.
\<close>

theorem aenter_failure_leaves_portal_open:
  assumes "bp_aenter lib (length (portals w)) (ext w) = (Inr (), s1)"
    and "ds_enter (original (this w)) s1 = (Inl e, s2)"
  shows "fst (aenter lib w) = Inl e
       \<and> portal (this (snd (aenter lib w))) = Some (length (portals w))
       \<and> portals (snd (aenter lib w)) = portals w @ [Running]
       \<and> trace (snd (aenter lib w)) =
           trace w @ [(cur_thread w, BlockingPortal_init (length (portals w))),
                      (cur_thread w, Portal_aenter (length (portals w))),
                      (WorkerThread, Orig_enter)]"
  using assms by (simp add: aenter_unfold)

text \<open>
  The theorem at a component whose \<^verbatim>\<open>__enter__\<close> raises.
\<close>

theorem aenter_failure_leaves_portal_open_witness:
  "fst (aenter ex_lib (ex_closed ex_store_enter_fails)) = Inl boom
   \<and> portal (this (snd (aenter ex_lib (ex_closed ex_store_enter_fails)))) = Some 0
   \<and> portals (snd (aenter ex_lib (ex_closed ex_store_enter_fails))) = [Running]"
proof -
  let ?w = "ex_closed ex_store_enter_fails"
  have h1: "bp_aenter ex_lib (length (portals ?w)) (ext ?w) = (Inr (), 0)"
    by (simp add: ex_defs)
  have h2: "ds_enter (original (this ?w)) 0 = (Inl boom, 1)"
    by (simp add: ex_defs)
  from aenter_failure_leaves_portal_open [OF h1 h2]
  show ?thesis by (simp add: ex_closed_def)
qed

subsection \<open>The scoped acquisition\<close>

text \<open>
  C2. Once \<^verbatim>\<open>cm.__enter__\<close> has returned and the body of the scope has ended in the
  state \<open>w3\<close>, the rest of \<^verbatim>\<open>acquire_schedules\<close> is one offloaded call of
  \<^verbatim>\<open>cm.__exit__\<close> and nothing else: with \<^verbatim>\<open>(None, None, None)\<close> when the body
  completed, with the type, value and traceback of the exception when the body raised.
  The \<^verbatim>\<open>cm.__exit__\<close> calls recorded after the body are exactly that one.
\<close>

theorem acquire_schedules_releases_exactly_once:
  assumes "ds_acquire_schedules (original (this w)) scheduler_id limit (ext w) = (Inr cm, s1)"
    and "cm_enter cm s1 = (Inr schedules, s2)"
    and "body schedules
           (w\<lparr>ext := s2,
              trace := trace w @ [(cur_thread w, Acquire_schedules scheduler_id limit),
                                  (WorkerThread, Cm_enter)]\<rparr>) = (outcome, w3)"
  shows "(outcome = Inr () \<longrightarrow>
            snd (acquire_schedules scheduler_id limit body w) =
              w3\<lparr>ext := snd (cm_exit cm no_exc_info (ext w3)),
                 trace := trace w3 @ [(WorkerThread, Cm_exit no_exc_info)]\<rparr>
            \<and> cm_exit_args (drop (length (trace w3))
                 (trace (snd (acquire_schedules scheduler_id limit body w)))) = [no_exc_info])
       \<and> (outcome = Inl e \<longrightarrow>
            snd (acquire_schedules scheduler_id limit body w) =
              w3\<lparr>ext := snd (cm_exit cm (sys_exc_info e) (ext w3)),
                 trace := trace w3 @ [(WorkerThread, Cm_exit (sys_exc_info e))]\<rparr>
            \<and> cm_exit_args (drop (length (trace w3))
                 (trace (snd (acquire_schedules scheduler_id limit body w)))) = [sys_exc_info e])"
  using assms by (simp add: acquire_schedules_unfold split: prod.splits)

text \<open>
  The theorem at a body that completes and at a body that raises \<open>boom\<close>.
\<close>

theorem acquire_schedules_releases_exactly_once_witness:
  "cm_exit_args (trace (snd (acquire_schedules (PStr ''sched'') (PInt 1) ex_body_ok
       (ex_open ex_store)))) = [(None, None, None)]
   \<and> ext (snd (acquire_schedules (PStr ''sched'') (PInt 1) ex_body_ok (ex_open ex_store))) = 11
   \<and> cm_exit_args (trace (snd (acquire_schedules (PStr ''sched'') (PInt 1) ex_body_raises
       (ex_open ex_store)))) = [(Some ''ValueError'', Some boom, Some [''body''])]
   \<and> ext (snd (acquire_schedules (PStr ''sched'') (PInt 1) ex_body_raises (ex_open ex_store))) = 11"
proof -
  let ?w = "ex_open ex_store"
  let ?w2 = "?w\<lparr>ext := 1,
                 trace := trace ?w @ [(cur_thread ?w, Acquire_schedules (PStr ''sched'') (PInt 1)),
                                      (WorkerThread, Cm_enter)]\<rparr>"
  have h1: "ds_acquire_schedules (original (this ?w)) (PStr ''sched'') (PInt 1) (ext ?w) =
              (Inr (ex_cm PNone), 0)"
    by (simp add: ex_defs)
  have h2: "cm_enter (ex_cm PNone) 0 = (Inr (PList [PStr ''schedule1'']), 1)"
    by (simp add: ex_defs)
  have ok: "ex_body_ok (PList [PStr ''schedule1'']) ?w2 = (Inr (), ?w2)"
    by (simp add: ex_body_ok_def return_io_def)
  have bad: "ex_body_raises (PList [PStr ''schedule1'']) ?w2 = (Inl boom, ?w2)"
    by (simp add: ex_body_raises_def raise_io_def)
  from acquire_schedules_releases_exactly_once [where body = ex_body_ok and e = boom, OF h1 h2 ok]
    acquire_schedules_releases_exactly_once [where body = ex_body_raises and e = boom, OF h1 h2 bad]
  show ?thesis
    by (simp add: ex_defs no_exc_info_def sys_exc_info_def)
qed

text \<open>
  C3. When the body of the scope raises \<open>e\<close> and the offloaded
  \<^verbatim>\<open>cm.__exit__\<close>, called with the context of \<open>e\<close>, returns a value: the scoped call
  returns normally when that value is truthy, and raises \<open>e\<close> itself when it is falsy.
\<close>

theorem acquire_schedules_suppression:
  assumes "ds_acquire_schedules (original (this w)) scheduler_id limit (ext w) = (Inr cm, s1)"
    and "cm_enter cm s1 = (Inr schedules, s2)"
    and "body schedules
           (w\<lparr>ext := s2,
              trace := trace w @ [(cur_thread w, Acquire_schedules scheduler_id limit),
                                  (WorkerThread, Cm_enter)]\<rparr>) = (Inl e, w3)"
    and "cm_exit cm (sys_exc_info e) (ext w3) = (Inr suppress, s4)"
  shows "fst (acquire_schedules scheduler_id limit body w) =
           (if truthy suppress then Inr () else Inl e)"
  using assms by (simp add: acquire_schedules_unfold)

text \<open>
  The theorem at a context manager whose \<^verbatim>\<open>__exit__\<close> returns \<^verbatim>\<open>True\<close> and at one whose
  \<^verbatim>\<open>__exit__\<close> returns \<^verbatim>\<open>None\<close>.
\<close>

theorem acquire_schedules_suppression_witness:
  "fst (acquire_schedules (PStr ''sched'') (PInt 1) ex_body_raises
          (ex_open (ex_store_with_cm (ex_cm (PBool True))))) = Inr ()
   \<and> fst (acquire_schedules (PStr ''sched'') (PInt 1) ex_body_raises
          (ex_open (ex_store_with_cm (ex_cm PNone)))) = Inl boom"
proof -
  have h1: "ds_acquire_schedules (original (this (ex_open (ex_store_with_cm cm))))
              (PStr ''sched'') (PInt 1) (ext (ex_open (ex_store_with_cm cm))) = (Inr cm, 0)" for cm
    by (simp add: ex_defs)
  have h2: "cm_enter (ex_cm v) 0 = (Inr (PList [PStr ''schedule1'']), 1)" for v
    by (simp add: ex_defs)
  have h3: "ex_body_raises (PList [PStr ''schedule1'']) w = (Inl boom, w)" for w :: "nat world"
    by (simp add: ex_body_raises_def raise_io_def)
  have h4: "cm_exit (ex_cm v) (sys_exc_info boom) (ext w) = (Inr v, ext w + 10)"
    for v and w :: "nat world"
    by (simp add: ex_defs)
  from acquire_schedules_suppression [where body = ex_body_raises, OF h1 h2 h3 h4, of "PBool True"]
    acquire_schedules_suppression [where body = ex_body_raises, OF h1 h2 h3 h4, of PNone]
  show ?thesis by simp
qed

text \<open>
  C4. When the offloaded \<^verbatim>\<open>cm.__enter__\<close> raises, \<^verbatim>\<open>acquire_schedules\<close> raises that
  exception; the body is not run and \<^verbatim>\<open>cm.__exit__\<close> is not called: the recorded calls
  are the construction of the context manager and \<^verbatim>\<open>cm.__enter__\<close>, no more.
\<close>

theorem acquire_schedules_enter_fails:
  assumes "ds_acquire_schedules (original (this w)) scheduler_id limit (ext w) = (Inr cm, s1)"
    and "cm_enter cm s1 = (Inl e, s2)"
  shows "acquire_schedules scheduler_id limit body w =
           (Inl e, w\<lparr>ext := s2,
                     trace := trace w @ [(cur_thread w, Acquire_schedules scheduler_id limit),
                                         (WorkerThread, Cm_enter)]\<rparr>)
       \<and> cm_exit_args (drop (length (trace w))
            (trace (snd (acquire_schedules scheduler_id limit body w)))) = []"
  using assms by (simp add: acquire_schedules_unfold)

text \<open>
  The theorem at a context manager whose \<^verbatim>\<open>__enter__\<close> raises \<open>boom\<close>.
\<close>

theorem acquire_schedules_enter_fails_witness:
  "fst (acquire_schedules (PStr ''sched'') (PInt 1) ex_body_ok
          (ex_open (ex_store_with_cm ex_cm_enter_fails))) = Inl boom
   \<and> trace (snd (acquire_schedules (PStr ''sched'') (PInt 1) ex_body_ok
          (ex_open (ex_store_with_cm ex_cm_enter_fails)))) =
       [(LoopThread, Acquire_schedules (PStr ''sched'') (PInt 1)), (WorkerThread, Cm_enter)]"
proof -
  let ?w = "ex_open (ex_store_with_cm ex_cm_enter_fails)"
  have h1: "ds_acquire_schedules (original (this ?w)) (PStr ''sched'') (PInt 1) (ext ?w) =
              (Inr ex_cm_enter_fails, 0)"
    by (simp add: ex_defs)
  have h2: "cm_enter ex_cm_enter_fails 0 = (Inl boom, 1)"
    by (simp add: ex_defs)
  from acquire_schedules_enter_fails [where body = ex_body_ok, OF h1 h2]
  show ?thesis by (simp add: ex_open_def)
qed

text \<open>
  C9. \<^verbatim>\<open>original.acquire_schedules(scheduler_id, limit)\<close> is called on the calling
  thread, not on a worker thread; \<^verbatim>\<open>cm.__enter__\<close> and \<^verbatim>\<open>cm.__exit__\<close> are the calls
  that run on a worker thread. When the constructing call raises, its exception propagates
  and no \<^verbatim>\<open>cm.__enter__\<close> has been offloaded.
\<close>

theorem acquire_schedules_constructor_not_offloaded:
  "(ds_acquire_schedules (original (this w)) scheduler_id limit (ext w) = (Inl e, s1) \<longrightarrow>
      acquire_schedules scheduler_id limit body w =
        (Inl e, w\<lparr>ext := s1,
                  trace := trace w @ [(cur_thread w, Acquire_schedules scheduler_id limit)]\<rparr>))
   \<and> (ds_acquire_schedules (original (this w)) scheduler_id limit (ext w) = (Inr cm, s1)
        \<and> cm_enter cm s1 = (Inl e, s2) \<longrightarrow>
        trace (snd (acquire_schedules scheduler_id limit body w)) =
          trace w @ [(cur_thread w, Acquire_schedules scheduler_id limit),
                     (WorkerThread, Cm_enter)])
   \<and> (ds_acquire_schedules (original (this w)) scheduler_id limit (ext w) = (Inr cm, s1)
        \<and> cm_enter cm s1 = (Inr schedules, s2)
        \<and> body schedules
             (w\<lparr>ext := s2,
                trace := trace w @ [(cur_thread w, Acquire_schedules scheduler_id limit),
                                    (WorkerThread, Cm_enter)]\<rparr>) = (outcome, w3) \<longrightarrow>
        trace (snd (acquire_schedules scheduler_id limit body w)) =
          trace w3 @ [(WorkerThread,
                       Cm_exit (case outcome of Inl e' \<Rightarrow> sys_exc_info e'
                                              | Inr x \<Rightarrow> no_exc_info))])"
  by (simp add: acquire_schedules_unfold split: prod.splits sum.splits)

text \<open>
  The theorem at a component whose \<^verbatim>\<open>acquire_schedules\<close> raises, at a context manager
  whose \<^verbatim>\<open>__enter__\<close> raises, and at a scope that completes; the caller is on the loop
  thread.
\<close>

theorem acquire_schedules_constructor_not_offloaded_witness:
  "acquire_schedules (PStr ''sched'') (PInt 1) ex_body_ok (ex_open ex_store_acquire_fails) =
     (Inl boom,
      (ex_open ex_store_acquire_fails)
        \<lparr>trace := [(LoopThread, Acquire_schedules (PStr ''sched'') (PInt 1))]\<rparr>)
   \<and> trace (snd (acquire_schedules (PStr ''sched'') (PInt 1) ex_body_ok
        (ex_open (ex_store_with_cm ex_cm_enter_fails)))) =
       [(LoopThread, Acquire_schedules (PStr ''sched'') (PInt 1)), (WorkerThread, Cm_enter)]
   \<and> trace (snd (acquire_schedules (PStr ''sched'') (PInt 1) ex_body_ok (ex_open ex_store))) =
       [(LoopThread, Acquire_schedules (PStr ''sched'') (PInt 1)), (WorkerThread, Cm_enter),
        (WorkerThread, Cm_exit no_exc_info)]"
proof -
  let ?w = "ex_open ex_store"
  let ?w2 = "?w\<lparr>ext := 1,
                 trace := trace ?w @ [(cur_thread ?w, Acquire_schedules (PStr ''sched'') (PInt 1)),
                                      (WorkerThread, Cm_enter)]\<rparr>"
  from acquire_schedules_constructor_not_offloaded
         [where w = "ex_open ex_store_acquire_fails" and scheduler_id = "PStr ''sched''"
            and limit = "PInt 1" and body = ex_body_ok and e = boom and ?s1.0 = 0]
       acquire_schedules_constructor_not_offloaded
         [where w = "ex_open (ex_store_with_cm ex_cm_enter_fails)"
            and scheduler_id = "PStr ''sched''" and limit = "PInt 1" and body = ex_body_ok
            and e = boom and ?s1.0 = 0 and cm = ex_cm_enter_fails and ?s2.0 = 1]
       acquire_schedules_constructor_not_offloaded
         [where w = ?w and scheduler_id = "PStr ''sched''" and limit = "PInt 1"
            and body = ex_body_ok and ?s1.0 = 0 and cm = "ex_cm PNone" and ?s2.0 = 1
            and schedules = "PList [PStr ''schedule1'']" and outcome = "Inr ()" and ?w3.0 = ?w2]
  show ?thesis by (simp add: ex_defs return_io_def)
qed

subsection \<open>Subscriptions\<close>

text \<open>
  C7. On an adapter that has been entered (its \<^verbatim>\<open>_portal\<close> is \<open>p\<close>), \<^verbatim>\<open>subscribe\<close> calls
  \<^verbatim>\<open>original.subscribe\<close> on the calling thread, not on a worker thread, with
  \<^verbatim>\<open>partial(portal.call, callback)\<close> in place of the callback and with the event types
  as given, and returns what the component returns. Calling that wrapper with an event is
  \<^verbatim>\<open>portal.call(callback, event)\<close>; through a running portal a user callable runs on the
  loop thread with the event as its only argument. \<^verbatim>\<open>unsubscribe\<close> passes its token to
  \<^verbatim>\<open>original.unsubscribe\<close> on the calling thread.
\<close>

theorem subscribe_forwards_wrapped_callback:
  assumes "portal (this w) = Some p"
  shows "subscribe callback event_types w =
           (fst (ds_subscribe (original (this w)) (PPartial (PPortalCall p) [callback])
                   event_types (ext w)),
            w\<lparr>ext := snd (ds_subscribe (original (this w)) (PPartial (PPortalCall p) [callback])
                            event_types (ext w)),
              trace := trace w @ [(cur_thread w,
                         Subscribe (PPartial (PPortalCall p) [callback]) event_types)]\<rparr>)
       \<and> py_call u (PPartial (PPortalCall p) [callback]) [event] =
           portal_call p callback [event] (py_call u callback [event])
       \<and> (p < length (portals v) \<and> portals v ! p = Running \<longrightarrow>
            py_call u (PPartial (PPortalCall p) [PFun n]) [event] v =
              (fst (u n [event] (ext v)),
               v\<lparr>ext := snd (u n [event] (ext v)),
                 trace := trace v @ [(cur_thread v, Portal_call p (PFun n) [event]),
                                     (LoopThread, Call_fun n [event])]\<rparr>))
       \<and> unsubscribe token w =
           (map_sum id (\<lambda>_. ()) (fst (ds_unsubscribe (original (this w)) token (ext w))),
            w\<lparr>ext := snd (ds_unsubscribe (original (this w)) token (ext w)),
              trace := trace w @ [(cur_thread w, Unsubscribe token)]\<rparr>)"
  using assms
  by (simp add: subscribe_def unsubscribe_def portal_call_def io_defs
      split: prod.splits sum.splits)

text \<open>
  The theorem at an open adapter: a subscription from the loop thread, the wrapper called
  from a worker thread, and an unsubscription.
\<close>

theorem subscribe_forwards_wrapped_callback_witness:
  "subscribe (PFun 3) PNone (ex_open ex_store) =
     (Inr (PInt 7),
      (ex_open ex_store)\<lparr>ext := 1,
         trace := [(LoopThread, Subscribe (PPartial (PPortalCall 0) [PFun 3]) PNone)]\<rparr>)
   \<and> py_call ex_user (PPartial (PPortalCall 0) [PFun 3]) [PStr ''event''] 
        ((ex_open ex_store)\<lparr>cur_thread := WorkerThread\<rparr>) =
       (Inr (PList [PStr ''event'']),
        (ex_open ex_store)\<lparr>cur_thread := WorkerThread, ext := 100,
           trace := [(WorkerThread, Portal_call 0 (PFun 3) [PStr ''event'']),
                     (LoopThread, Call_fun 3 [PStr ''event''])]\<rparr>)
   \<and> unsubscribe (PInt 7) (ex_open ex_store) =
       (Inr (), (ex_open ex_store)\<lparr>ext := 1, trace := [(LoopThread, Unsubscribe (PInt 7))]\<rparr>)"
proof -
  have p: "portal (this (ex_open ex_store)) = Some 0"
    by (simp add: ex_open_def)
  from subscribe_forwards_wrapped_callback
         [OF p, where callback = "PFun 3" and event_types = PNone and u = ex_user
            and event = "PStr ''event''" and n = 3 and token = "PInt 7"
            and v = "(ex_open ex_store)\<lparr>cur_thread := WorkerThread\<rparr>"]
  show ?thesis by (simp add: ex_defs)
qed

end
